theory Spec2Isabelle
  imports Complex_Main "HOL-Library.Sublist"
begin

section \<open>Shader suffix generation and compilation front-end (package graphics)\<close>

text \<open>
  The Go file defines two functions. \<open>shaderSuffix\<close> builds, with \<open>fmt.Sprintf\<close> and string
  concatenation, the text that is appended to every user shader; \<open>CompileShader\<close> parses the
  compiler directives of the user source, appends the suffix, calls the compiler and checks
  that both entry points exist.

  Three things the file uses are declared elsewhere in the repository: the integer type
  \<open>shaderir.Unit\<close> with its constants \<open>Pixels\<close> and \<open>Texels\<close>, the constant
  \<open>ShaderImageCount\<close>, and the functions \<open>shader.ParseCompilerDirectives\<close> and
  \<open>shader.Compile\<close>. The constant and the two functions are parameters of the model.
\<close>

subsection \<open>The verb \<open>%d\<close> of \<open>fmt.Sprintf\<close>\<close>

fun digits :: "nat \<Rightarrow> string" where
  "digits n =
     (if n < 10 then [''0123456789'' ! n]
      else digits (n div 10) @ [''0123456789'' ! (n mod 10)])"

declare digits.simps [simp del]

definition fmt_d :: "int \<Rightarrow> string" where
  "fmt_d v = (if v < 0 then ''-'' @ digits (nat (- v)) else digits (nat v))"

subsection \<open>Units and errors\<close>

text \<open>
  Modelled from the spec: the type \<open>shaderir.Unit\<close> is declared outside the source
  at hand. The specification calls it the coordinate unit mode, an enumeration of
  \<open>Pixels\<close> and \<open>Texels\<close>, and speaks of unrecognized values of it. In the code it
  is an integer type: the first switch of \<open>shaderSuffix\<close> names the two constants and
  has a \<open>default\<close> branch for every other value, which it prints with \<open>%d\<close>.
  \<open>UnitValue v\<close> is such an other value, \<open>v\<close> its number.
\<close>

datatype Unit = Texels | Pixels | UnitValue int

text \<open>
  A Go \<open>error\<close> is either made here by \<open>fmt.Errorf\<close>, and then it is its message, or it is
  the error value some function of package \<open>shader\<close> returned.
\<close>

datatype 'e error = Errorf string | External 'e

subsection \<open>The format strings of \<open>shaderSuffix\<close>\<close>

text \<open>
  Each raw string literal of the source is one definition, its \<open>%[1]d\<close> and \<open>%[2]s\<close>
  replaced by the arguments. A line of the literal is a line here; \<open>CHR 0x09\<close> is the
  tab that indents it.
\<close>

definition imageDecls :: "int \<Rightarrow> string" where
  "imageDecls n =
     ''\<newline>'' @
     ''var __imageDstTextureSize vec2\<newline>'' @
     ''\<newline>'' @
     ''// imageSrcTextureSize returns the destination image's texture size in pixels.\<newline>'' @
     ''func imageDstTextureSize() vec2 {\<newline>'' @
     [CHR 0x09] @ ''return __imageDstTextureSize\<newline>'' @
     ''}\<newline>'' @
     ''\<newline>'' @
     ''var __imageSrcTextureSizes ['' @ fmt_d n @ '']vec2\<newline>'' @
     ''\<newline>'' @
     ''// imageSrcTextureSize returns the 0th source image's texture size in pixels.\<newline>'' @
     ''// As an image is a part of internal texture, the texture is usually bigger than the image.\<newline>'' @
     ''// The texture's size is useful when you want to calculate pixels from texels in the texel mode.\<newline>'' @
     ''func imageSrcTextureSize() vec2 {\<newline>'' @
     [CHR 0x09] @ ''return __imageSrcTextureSizes[0]\<newline>'' @
     ''}\<newline>'' @
     ''\<newline>'' @
     ''// The unit is the source texture's pixel or texel.\<newline>'' @
     ''var __imageDstRegionOrigin vec2\<newline>'' @
     ''\<newline>'' @
     ''// The unit is the source texture's pixel or texel.\<newline>'' @
     ''var __imageDstRegionSize vec2\<newline>'' @
     ''\<newline>'' @
     ''// imageDstRegionOnTexture returns the destination image's region (the origin and the size) on its texture.\<newline>'' @
     ''// The unit is the source texture's pixel or texel.\<newline>'' @
     ''//\<newline>'' @
     ''// As an image is a part of internal texture, the image can be located at an arbitrary position on the texture.\<newline>'' @
     ''//\<newline>'' @
     ''// Deprecated: as of v2.6. Use imageDstOrigin or imageDstSize.\<newline>'' @
     ''func imageDstRegionOnTexture() (vec2, vec2) {\<newline>'' @
     [CHR 0x09] @ ''return __imageDstRegionOrigin, __imageDstRegionSize\<newline>'' @
     ''}\<newline>'' @
     ''\<newline>'' @
     ''// imageDstRegionOnTexture returns the destination image's origin on its texture.\<newline>'' @
     ''// The unit is the source texture's pixel or texel.\<newline>'' @
     ''//\<newline>'' @
     ''// As an image is a part of internal texture, the image can be located at an arbitrary position on the texture.\<newline>'' @
     ''func imageDstOrigin() vec2 {\<newline>'' @
     [CHR 0x09] @ ''return __imageDstRegionOrigin\<newline>'' @
     ''}\<newline>'' @
     ''\<newline>'' @
     ''// imageDstRegionOnTexture returns the destination image's size.\<newline>'' @
     ''// The unit is the source texture's pixel or texel.\<newline>'' @
     ''func imageDstSize() vec2 {\<newline>'' @
     [CHR 0x09] @ ''return __imageDstRegionSize\<newline>'' @
     ''}\<newline>'' @
     ''\<newline>'' @
     ''// The unit is the source texture's pixel or texel.\<newline>'' @
     ''var __imageSrcRegionOrigins ['' @ fmt_d n @ '']vec2\<newline>'' @
     ''\<newline>'' @
     ''// The unit is the source texture's pixel or texel.\<newline>'' @
     ''var __imageSrcRegionSizes ['' @ fmt_d n @ '']vec2\<newline>'' @
     ''\<newline>'' @
     ''// imageSrcRegionOnTexture returns the 0th source image's region (the origin and the size) on its texture.\<newline>'' @
     ''// The unit is the source texture's pixel or texel.\<newline>'' @
     ''//\<newline>'' @
     ''// As an image is a part of internal texture, the image can be located at an arbitrary position on the texture.\<newline>'' @
     ''//\<newline>'' @
     ''// Deprecated: as of v2.6. Use imageSrc0Origin or imageSrc0Size instead.\<newline>'' @
     ''func imageSrcRegionOnTexture() (vec2, vec2) {\<newline>'' @
     [CHR 0x09] @ ''return __imageSrcRegionOrigins[0], __imageSrcRegionSizes[0]\<newline>'' @
     ''}\<newline>''"

definition imageSrcOriginSize :: "int \<Rightarrow> string" where
  "imageSrcOriginSize i =
     ''\<newline>'' @
     ''// imageSrc'' @ fmt_d i @ ''Origin returns the source image's region origin on its texture.\<newline>'' @
     ''// The unit is the source texture's pixel or texel.\<newline>'' @
     ''//\<newline>'' @
     ''// As an image is a part of internal texture, the image can be located at an arbitrary position on the texture.\<newline>'' @
     ''func imageSrc'' @ fmt_d i @ ''Origin() vec2 {\<newline>'' @
     [CHR 0x09] @ ''return __imageSrcRegionOrigins['' @ fmt_d i @ '']\<newline>'' @
     ''}\<newline>'' @
     ''\<newline>'' @
     ''// imageSrc'' @ fmt_d i @ ''Size returns the source image's size.\<newline>'' @
     ''// The unit is the source texture's pixel or texel.\<newline>'' @
     ''func imageSrc'' @ fmt_d i @ ''Size() vec2 {\<newline>'' @
     [CHR 0x09] @ ''return __imageSrcRegionSizes['' @ fmt_d i @ '']\<newline>'' @
     ''}\<newline>''"

definition imageSrcUnsafeAt :: "int \<Rightarrow> string \<Rightarrow> string" where
  "imageSrcUnsafeAt i pos =
     ''\<newline>'' @
     ''func imageSrc'' @ fmt_d i @ ''UnsafeAt(pos vec2) vec4 {\<newline>'' @
     [CHR 0x09] @ ''// pos is the position in positions of the source texture (= 0th image's texture).\<newline>'' @
     [CHR 0x09] @ ''return __texelAt(__t'' @ fmt_d i @ '', '' @ pos @ '')\<newline>'' @
     ''}\<newline>''"

definition imageSrcAtPixels :: "int \<Rightarrow> string \<Rightarrow> string" where
  "imageSrcAtPixels i pos =
     ''\<newline>'' @
     ''func imageSrc'' @ fmt_d i @ ''At(pos vec2) vec4 {\<newline>'' @
     [CHR 0x09] @ ''// pos is the position of the source texture (= 0th image's texture).\<newline>'' @
     [CHR 0x09] @ ''// If pos is in the region, the result is (1, 1). Otherwise, either element is 0.\<newline>'' @
     [CHR 0x09] @ ''in := step(__imageSrcRegionOrigins[0], pos) - step(__imageSrcRegionOrigins[0] + __imageSrcRegionSizes['' @ fmt_d i @ ''], pos)\<newline>'' @
     [CHR 0x09] @ ''return __texelAt(__t'' @ fmt_d i @ '', '' @ pos @ '') * in.x * in.y\<newline>'' @
     ''}\<newline>''"

definition imageSrcAtTexels :: "int \<Rightarrow> string \<Rightarrow> string" where
  "imageSrcAtTexels i pos =
     ''\<newline>'' @
     ''func imageSrc'' @ fmt_d i @ ''At(pos vec2) vec4 {\<newline>'' @
     [CHR 0x09] @ ''// pos is the position of the source texture (= 0th image's texture).\<newline>'' @
     [CHR 0x09] @ ''// If pos is in the region, the result is (1, 1). Otherwise, either element is 0.\<newline>'' @
     [CHR 0x09] @ ''// With the texel mode, all the source region sizes are the same (#1870).\<newline>'' @
     [CHR 0x09] @ ''// As pos is in texels of the 0th texture, always use the 0th image region size.\<newline>'' @
     [CHR 0x09] @ ''in := step(__imageSrcRegionOrigins[0], pos) - step(__imageSrcRegionOrigins[0] + __imageSrcRegionSizes[0], pos)\<newline>'' @
     [CHR 0x09] @ ''return __texelAt(__t'' @ fmt_d i @ '', '' @ pos @ '') * in.x * in.y\<newline>'' @
     ''}\<newline>''"

definition vertexDecls :: "string" where
  "vertexDecls =
     ''\<newline>'' @
     ''var __projectionMatrix mat4\<newline>'' @
     ''\<newline>'' @
     ''func __vertex(position vec2, texCoord vec2, color vec4) (vec4, vec2, vec4) {\<newline>'' @
     [CHR 0x09] @ ''return __projectionMatrix * vec4(position, 0, 1), texCoord, color\<newline>'' @
     ''}\<newline>''"

subsection \<open>\<open>shaderSuffix\<close>\<close>

text \<open>
  The variable \<open>pos\<close> of the loop body: the text of the position at which slot \<open>i\<close> is
  sampled. For \<open>i \<ge> 1\<close> the position is converted from the positions of texture 0,
  and an unexpected unit makes \<open>shaderSuffix\<close> return here.
\<close>

definition slotPos :: "Unit \<Rightarrow> int \<Rightarrow> 'e error + string" where
  "slotPos unit i =
     (if i \<ge> 1 then
        (case unit of
           Pixels \<Rightarrow>
             Inr (''pos - __imageSrcRegionOrigins[0] + __imageSrcRegionOrigins['' @ fmt_d i @ '']'')
         | Texels \<Rightarrow>
             Inr (''((pos - __imageSrcRegionOrigins[0]) * __imageSrcTextureSizes[0]) / __imageSrcTextureSizes[''
                  @ fmt_d i @ ''] + __imageSrcRegionOrigins['' @ fmt_d i @ '']'')
         | UnitValue v \<Rightarrow>
             Inl (Errorf (''graphics: unexpected unit: '' @ fmt_d v)))
      else Inr ''pos'')"

text \<open>The second switch on the unit has no \<open>default\<close> branch: it appends nothing then.\<close>

definition imageSrcAt :: "Unit \<Rightarrow> int \<Rightarrow> string \<Rightarrow> string" where
  "imageSrcAt unit i pos =
     (case unit of
        Pixels \<Rightarrow> imageSrcAtPixels i pos
      | Texels \<Rightarrow> imageSrcAtTexels i pos
      | UnitValue v \<Rightarrow> [])"

text \<open>One iteration of the loop, on the text built so far.\<close>

definition loopBody :: "Unit \<Rightarrow> int \<Rightarrow> string \<Rightarrow> 'e error + string" where
  "loopBody unit i s =
     (let s1 = s @ imageSrcOriginSize i in
      case slotPos unit i of
        Inl e \<Rightarrow> Inl e
      | Inr pos \<Rightarrow>
          (let s2 = s1 @ imageSrcUnsafeAt i pos in
           Inr (s2 @ imageSrcAt unit i pos)))"

text \<open>
  \<open>for i := 0; i < ShaderImageCount; i++\<close>. The function returns what \<open>shaderSuffix\<close>
  returns, a pair as in Go: the empty string and the error, or the text and \<open>nil\<close>.
\<close>

function slotLoop :: "int \<Rightarrow> Unit \<Rightarrow> int \<Rightarrow> string \<Rightarrow> string \<times> 'e error option" where
  "slotLoop n unit i s =
     (if i < n then
        (case loopBody unit i s of
           Inl e \<Rightarrow> ([], Some e)
         | Inr s' \<Rightarrow> slotLoop n unit (i + 1) s')
      else (s @ vertexDecls, None))"
  by pat_completeness auto
termination
  by (relation "measure (\<lambda>(n, unit, i, s). nat (n - i))") auto

declare slotLoop.simps [simp del]

definition shaderSuffix :: "int \<Rightarrow> Unit \<Rightarrow> string \<times> 'e error option" where
  "shaderSuffix ShaderImageCount unit =
     slotLoop ShaderImageCount unit 0 (imageDecls ShaderImageCount)"

subsection \<open>\<open>CompileShader\<close>\<close>

text \<open>
  Of a \<open>shaderir.Program\<close> the function reads \<open>VertexFunc.Block\<close> and
  \<open>FragmentFunc.Block\<close>, two pointers it compares with \<open>nil\<close>. Whatever else the
  structs hold is the extension part of the records.
\<close>

record 'b Func =
  Block :: "'b option"

record ('b, 'f) Program =
  VertexFunc :: "('b, 'f) Func_scheme"
  FragmentFunc :: "('b, 'f) Func_scheme"

text \<open>
  The calls \<open>CompileShader\<close> makes, in the order it makes them, with their arguments.
\<close>

datatype call =
    CallParseCompilerDirectives string
  | CallShaderSuffix Unit
  | CallCompile string string string int

text \<open>
  \<open>CompileShader\<close> returns a pair of a program pointer and an error. It dereferences the
  pointer \<open>shader.Compile\<close> returned with a \<open>nil\<close> error; were that pointer \<open>nil\<close>,
  the dereference would panic.
\<close>

datatype ('p, 'e) outcome = Return "'p option" "'e error option" | Panic

definition vert :: string where
  "vert = ''__vertex''"

definition frag :: string where
  "frag = ''Fragment''"

definition CompileShader ::
  "(string \<Rightarrow> Unit \<times> 'e option) \<Rightarrow>
   (string \<Rightarrow> string \<Rightarrow> string \<Rightarrow> int \<Rightarrow> ('b, 'f, 'm) Program_scheme option \<times> 'e option) \<Rightarrow>
   int \<Rightarrow> string \<Rightarrow> (('b, 'f, 'm) Program_scheme, 'e) outcome \<times> call list" where
  "CompileShader ParseCompilerDirectives Compile ShaderImageCount src =
     (case ParseCompilerDirectives src of
        (unit, Some err) \<Rightarrow>
          (Return None (Some (External err)), [CallParseCompilerDirectives src])
      | (unit, None) \<Rightarrow>
          (case shaderSuffix ShaderImageCount unit of
             (suffixText, Some err) \<Rightarrow>
               (Return None (Some err), [CallParseCompilerDirectives src, CallShaderSuffix unit])
           | (suffixText, None) \<Rightarrow>
               (let buf = src @ suffixText;
                    calls = [CallParseCompilerDirectives src, CallShaderSuffix unit,
                             CallCompile buf vert frag ShaderImageCount]
                in case Compile buf vert frag ShaderImageCount of
                     (ir, Some err) \<Rightarrow> (Return None (Some (External err)), calls)
                   | (None, None) \<Rightarrow> (Panic, calls)
                   | (Some ir, None) \<Rightarrow>
                       if Block (VertexFunc ir) = None then
                         (Return None
                            (Some (Errorf (''graphics: vertex shader entry point '' @ [CHR 0x27]
                                           @ vert @ [CHR 0x27] @ '' is missing''))),
                          calls)
                       else if Block (FragmentFunc ir) = None then
                         (Return None
                            (Some (Errorf (''graphics: fragment shader entry point '' @ [CHR 0x27]
                                           @ frag @ [CHR 0x27] @ '' is missing''))),
                          calls)
                       else (Return (Some ir) None, calls))))"

subsection \<open>The loop of \<open>shaderSuffix\<close> as a transition relation\<close>

text \<open>
  The same loop, one transition for each pass through the loop head: \<open>Loop i s\<close> is the
  state before the test \<open>i < ShaderImageCount\<close> with \<open>s\<close> the text built so far,
  \<open>Returned r\<close> the state after a \<open>return\<close>. \<open>Entry\<close> is the call itself, whose first
  step formats the declarations.
\<close>

datatype 'e config = Entry | Loop int string | Returned "string \<times> 'e error option"

inductive suffixStep :: "int \<Rightarrow> Unit \<Rightarrow> 'e config \<Rightarrow> 'e config \<Rightarrow> bool" for n :: int and unit :: Unit where
  enter: "suffixStep n unit Entry (Loop 0 (imageDecls n))"
| iterate: "i < n \<Longrightarrow> (loopBody unit i s :: 'e error + string) = Inr s' \<Longrightarrow> suffixStep n unit (Loop i s) (Loop (i + 1) s')"
| abort: "i < n \<Longrightarrow> loopBody unit i s = Inl e \<Longrightarrow> suffixStep n unit (Loop i s) (Returned ([], Some e))"
| leave: "\<not> i < n \<Longrightarrow> suffixStep n unit (Loop i s) (Returned (s @ vertexDecls, None))"

inductive suffixRun :: "int \<Rightarrow> Unit \<Rightarrow> 'e config \<Rightarrow> 'e config \<Rightarrow> bool" for n :: int and unit :: Unit where
  refl: "suffixRun n unit c c"
| step: "suffixStep n unit c c' \<Longrightarrow> suffixRun n unit c' c'' \<Longrightarrow> suffixRun n unit c c''"

code_pred suffixStep .

code_pred suffixRun .

subsection \<open>The expressions the suffix contains\<close>

text \<open>
  What \<open>shaderSuffix\<close> writes into the bodies of \<open>imageSrc%dUnsafeAt\<close> and
  \<open>imageSrc%dAt\<close> are expressions of the shading language. They are read here as syntax
  trees: binary operators associate to the left, \<open>*\<close> and \<open>/\<close> bind tighter than \<open>+\<close>
  and \<open>-\<close>, and a pair of parentheses is a node of its own, so that \<open>pretty\<close> gives back the
  text character by character.
\<close>

datatype uniform = ImageSrcRegionOrigins | ImageSrcRegionSizes | ImageSrcTextureSizes

fun uniformName :: "uniform \<Rightarrow> string" where
  "uniformName ImageSrcRegionOrigins = ''__imageSrcRegionOrigins''"
| "uniformName ImageSrcRegionSizes = ''__imageSrcRegionSizes''"
| "uniformName ImageSrcTextureSizes = ''__imageSrcTextureSizes''"

datatype var = PosVar | InVar

fun varName :: "var \<Rightarrow> string" where
  "varName PosVar = ''pos''"
| "varName InVar = ''in''"

datatype builtin = Step | TexelAt

fun builtinName :: "builtin \<Rightarrow> string" where
  "builtinName Step = ''step''"
| "builtinName TexelAt = ''__texelAt''"

datatype binop = Add | Sub | Mul | Div

fun binopName :: "binop \<Rightarrow> string" where
  "binopName Add = ''+''"
| "binopName Sub = ''-''"
| "binopName Mul = ''*''"
| "binopName Div = ''/''"

datatype field = X | Y

fun fieldName :: "field \<Rightarrow> string" where
  "fieldName X = ''x''"
| "fieldName Y = ''y''"

datatype expr =
    Var var
  | Elem uniform int
  | Tex int
  | Paren expr
  | Bin expr binop expr
  | Call builtin expr expr
  | Sel expr field

fun pretty :: "expr \<Rightarrow> string" where
  "pretty (Var v) = varName v"
| "pretty (Elem u i) = uniformName u @ ''['' @ fmt_d i @ '']''"
| "pretty (Tex i) = ''__t'' @ fmt_d i"
| "pretty (Paren e) = ''('' @ pretty e @ '')''"
| "pretty (Bin l b r) = pretty l @ '' '' @ binopName b @ '' '' @ pretty r"
| "pretty (Call f a b) = builtinName f @ ''('' @ pretty a @ '', '' @ pretty b @ '')''"
| "pretty (Sel e f) = pretty e @ ''.'' @ fieldName f"

datatype stmt = Define var expr | Ret expr

fun prettyStmt :: "stmt \<Rightarrow> string" where
  "prettyStmt (Define v e) = [CHR 0x09] @ varName v @ '' := '' @ pretty e @ ''\<newline>''"
| "prettyStmt (Ret e) = [CHR 0x09] @ ''return '' @ pretty e @ ''\<newline>''"

text \<open>The indices at which an expression reads a uniform array, and its operators.\<close>

fun elems :: "uniform \<Rightarrow> expr \<Rightarrow> int list" where
  "elems u (Var v) = []"
| "elems u (Elem u' i) = (if u' = u then [i] else [])"
| "elems u (Tex i) = []"
| "elems u (Paren e) = elems u e"
| "elems u (Bin l b r) = elems u l @ elems u r"
| "elems u (Call f a b) = elems u a @ elems u b"
| "elems u (Sel e f) = elems u e"

fun binops :: "expr \<Rightarrow> binop list" where
  "binops (Var v) = []"
| "binops (Elem u i) = []"
| "binops (Tex i) = []"
| "binops (Paren e) = binops e"
| "binops (Bin l b r) = binops l @ [b] @ binops r"
| "binops (Call f a b) = binops a @ binops b"
| "binops (Sel e f) = binops e"

fun stmtExpr :: "stmt \<Rightarrow> expr" where
  "stmtExpr (Define v e) = e"
| "stmtExpr (Ret e) = e"

text \<open>The two position conversions of the first switch (source lines 112 and 114).\<close>

definition posPixels :: "int \<Rightarrow> expr" where
  "posPixels i =
     Bin (Bin (Var PosVar) Sub (Elem ImageSrcRegionOrigins 0)) Add (Elem ImageSrcRegionOrigins i)"

definition posTexels :: "int \<Rightarrow> expr" where
  "posTexels i =
     Bin (Bin (Paren (Bin (Paren (Bin (Var PosVar) Sub (Elem ImageSrcRegionOrigins 0)))
                          Mul (Elem ImageSrcTextureSizes 0)))
              Div (Elem ImageSrcTextureSizes i))
         Add (Elem ImageSrcRegionOrigins i)"

definition slotPosExpr :: "Unit \<Rightarrow> int \<Rightarrow> expr option" where
  "slotPosExpr unit i =
     (if i \<ge> 1 then
        (case unit of
           Pixels \<Rightarrow> Some (posPixels i)
         | Texels \<Rightarrow> Some (posTexels i)
         | UnitValue v \<Rightarrow> None)
      else Some (Var PosVar))"

text \<open>
  The body of \<open>imageSrc%dUnsafeAt\<close> (line 123), and the two statements of
  \<open>imageSrc%dAt\<close>: the line \<open>in := ...\<close>, which reads \<open>__imageSrcRegionSizes[%[1]d]\<close> in
  the pixel template (line 132) and \<open>__imageSrcRegionSizes[0]\<close> in the texel template
  (line 143), and the \<open>return\<close> line (133 and 144).
\<close>

definition unsafeTexel :: "int \<Rightarrow> expr \<Rightarrow> expr" where
  "unsafeTexel i p = Call TexelAt (Tex i) p"

definition regionMask :: "int \<Rightarrow> expr" where
  "regionMask k =
     Bin (Call Step (Elem ImageSrcRegionOrigins 0) (Var PosVar)) Sub
         (Call Step (Bin (Elem ImageSrcRegionOrigins 0) Add (Elem ImageSrcRegionSizes k)) (Var PosVar))"

definition maskedTexel :: "int \<Rightarrow> expr \<Rightarrow> expr" where
  "maskedTexel i p = Bin (Bin (unsafeTexel i p) Mul (Sel (Var InVar) X)) Mul (Sel (Var InVar) Y)"

definition sizeSlot :: "Unit \<Rightarrow> int \<Rightarrow> int option" where
  "sizeSlot unit i = (case unit of Pixels \<Rightarrow> Some i | Texels \<Rightarrow> Some 0 | UnitValue v \<Rightarrow> None)"

definition unsafeAtBody :: "Unit \<Rightarrow> int \<Rightarrow> stmt list option" where
  "unsafeAtBody unit i =
     (case slotPosExpr unit i of
        None \<Rightarrow> None
      | Some p \<Rightarrow> Some [Ret (unsafeTexel i p)])"

definition atBody :: "Unit \<Rightarrow> int \<Rightarrow> stmt list option" where
  "atBody unit i =
     (case slotPosExpr unit i of
        None \<Rightarrow> None
      | Some p \<Rightarrow>
          (case sizeSlot unit i of
             None \<Rightarrow> None
           | Some k \<Rightarrow> Some [Define InVar (regionMask k), Ret (maskedTexel i p)]))"

text \<open>The lines of the two \<open>imageSrc%dAt\<close> templates before the statements.\<close>

definition atHead :: "Unit \<Rightarrow> int \<Rightarrow> string" where
  "atHead unit i =
     ''\<newline>'' @
     ''func imageSrc'' @ fmt_d i @ ''At(pos vec2) vec4 {\<newline>'' @
     [CHR 0x09] @ ''// pos is the position of the source texture (= 0th image's texture).\<newline>'' @
     [CHR 0x09] @ ''// If pos is in the region, the result is (1, 1). Otherwise, either element is 0.\<newline>'' @
     (if unit = Texels then
        [CHR 0x09] @ ''// With the texel mode, all the source region sizes are the same (#1870).\<newline>'' @
        [CHR 0x09] @ ''// As pos is in texels of the 0th texture, always use the 0th image region size.\<newline>''
      else [])"

definition unsafeAtHead :: "int \<Rightarrow> string" where
  "unsafeAtHead i =
     ''\<newline>'' @
     ''func imageSrc'' @ fmt_d i @ ''UnsafeAt(pos vec2) vec4 {\<newline>'' @
     [CHR 0x09] @ ''// pos is the position in positions of the source texture (= 0th image's texture).\<newline>''"

subsection \<open>What the expressions compute\<close>

text \<open>
  Values are numbers, vectors of two and of four numbers, and textures. The numbers are
  those of a linearly ordered field: the arithmetic is the exact one, which the floating
  point arithmetic of a GPU follows as long as it does not round, and a division by zero
  has no value here.
\<close>

datatype 'a val = Float 'a | Vec2 'a 'a | Vec4 'a 'a 'a 'a | Texture int

record 'a uniforms =
  imageCount :: int
  imageSrcRegionOrigins :: "int \<Rightarrow> 'a \<times> 'a"
  imageSrcRegionSizes :: "int \<Rightarrow> 'a \<times> 'a"
  imageSrcTextureSizes :: "int \<Rightarrow> 'a \<times> 'a"
  texels :: "int \<Rightarrow> 'a \<times> 'a \<Rightarrow> 'a \<times> 'a \<times> 'a \<times> 'a"

fun uniformValue :: "'a uniforms \<Rightarrow> uniform \<Rightarrow> int \<Rightarrow> 'a \<times> 'a" where
  "uniformValue env ImageSrcRegionOrigins i = imageSrcRegionOrigins env i"
| "uniformValue env ImageSrcRegionSizes i = imageSrcRegionSizes env i"
| "uniformValue env ImageSrcTextureSizes i = imageSrcTextureSizes env i"

fun arith :: "binop \<Rightarrow> 'a::linordered_field \<Rightarrow> 'a \<Rightarrow> 'a option" where
  "arith Add a b = Some (a + b)"
| "arith Sub a b = Some (a - b)"
| "arith Mul a b = Some (a * b)"
| "arith Div a b = (if b = 0 then None else Some (a / b))"

fun vec2Of :: "'a option \<Rightarrow> 'a option \<Rightarrow> 'a val option" where
  "vec2Of (Some x) (Some y) = Some (Vec2 x y)"
| "vec2Of _ _ = None"

fun vec4Of :: "'a option \<Rightarrow> 'a option \<Rightarrow> 'a option \<Rightarrow> 'a option \<Rightarrow> 'a val option" where
  "vec4Of (Some r) (Some g) (Some b) (Some a) = Some (Vec4 r g b a)"
| "vec4Of _ _ _ _ = None"

text \<open>
  The operand kinds \<open>shaderSuffix\<close> writes: two numbers, two \<open>vec2\<close>, and a \<open>vec4\<close>
  with a number.
\<close>

fun binopVal :: "binop \<Rightarrow> 'a::linordered_field val \<Rightarrow> 'a val \<Rightarrow> 'a val option" where
  "binopVal b (Float x) (Float y) = map_option Float (arith b x y)"
| "binopVal b (Vec2 x1 x2) (Vec2 y1 y2) = vec2Of (arith b x1 y1) (arith b x2 y2)"
| "binopVal b (Vec4 x1 x2 x3 x4) (Float y) =
     vec4Of (arith b x1 y) (arith b x2 y) (arith b x3 y) (arith b x4 y)"
| "binopVal b _ _ = None"

text \<open>
  Modelled from the spec: \<open>step\<close> and \<open>__texelAt\<close> are built into the shading
  language, whose compiler is outside the source at hand. The specification says of the
  bounds-checked fetch that it zeroes the sample when the queried position lies outside
  the region, and of the other one that it fetches a texel; the comment on the emitted
  line says that the difference of the two \<open>step\<close> calls is \<open>(1, 1)\<close> where \<open>pos\<close>
  is in the region and has a 0 elsewhere. So \<open>step(edge, x)\<close> is 0 where
  \<open>x < edge\<close> and 1 elsewhere, component by component, and \<open>__texelAt(t, p)\<close> is the
  texel of texture \<open>t\<close> at \<open>p\<close>, which the field \<open>texels\<close> of the uniforms gives.
\<close>

definition stepAt :: "'a::linordered_field \<Rightarrow> 'a \<Rightarrow> 'a" where
  "stepAt edge x = (if x < edge then 0 else 1)"

fun callBuiltin :: "'a::linordered_field uniforms \<Rightarrow> builtin \<Rightarrow> 'a val \<Rightarrow> 'a val \<Rightarrow> 'a val option" where
  "callBuiltin env Step (Float e) (Float x) = Some (Float (stepAt e x))"
| "callBuiltin env Step (Vec2 e1 e2) (Vec2 x1 x2) = Some (Vec2 (stepAt e1 x1) (stepAt e2 x2))"
| "callBuiltin env TexelAt (Texture i) (Vec2 x y) =
     (if 0 \<le> i \<and> i < imageCount env
      then (case texels env i (x, y) of (r, g, b, a) \<Rightarrow> Some (Vec4 r g b a))
      else None)"
| "callBuiltin env _ _ _ = None"

fun select :: "'a val \<Rightarrow> field \<Rightarrow> 'a val option" where
  "select (Vec2 x y) X = Some (Float x)"
| "select (Vec2 x y) Y = Some (Float y)"
| "select (Vec4 r g b a) X = Some (Float r)"
| "select (Vec4 r g b a) Y = Some (Float g)"
| "select _ _ = None"

text \<open>
  An element of a uniform array exists for the indices below the length of the array,
  which is \<open>ShaderImageCount\<close>.
\<close>

fun eval :: "'a::linordered_field uniforms \<Rightarrow> (var \<Rightarrow> 'a val option) \<Rightarrow> expr \<Rightarrow> 'a val option" where
  "eval env l (Var v) = l v"
| "eval env l (Elem u i) =
     (if 0 \<le> i \<and> i < imageCount env
      then (case uniformValue env u i of (x, y) \<Rightarrow> Some (Vec2 x y))
      else None)"
| "eval env l (Tex i) = Some (Texture i)"
| "eval env l (Paren e) = eval env l e"
| "eval env l (Bin a b c) =
     (case eval env l a of
        None \<Rightarrow> None
      | Some x \<Rightarrow> (case eval env l c of None \<Rightarrow> None | Some y \<Rightarrow> binopVal b x y))"
| "eval env l (Call f a b) =
     (case eval env l a of
        None \<Rightarrow> None
      | Some x \<Rightarrow> (case eval env l b of None \<Rightarrow> None | Some y \<Rightarrow> callBuiltin env f x y))"
| "eval env l (Sel e f) = (case eval env l e of None \<Rightarrow> None | Some x \<Rightarrow> select x f)"

fun exec :: "'a::linordered_field uniforms \<Rightarrow> (var \<Rightarrow> 'a val option) \<Rightarrow> stmt list \<Rightarrow> 'a val option" where
  "exec env l [] = None"
| "exec env l (Define v e # ss) =
     (case eval env l e of None \<Rightarrow> None | Some x \<Rightarrow> exec env (l(v := Some x)) ss)"
| "exec env l (Ret e # ss) = eval env l e"

text \<open>A call of a function with the one parameter \<open>pos vec2\<close>.\<close>

definition posOnly :: "'a \<times> 'a \<Rightarrow> var \<Rightarrow> 'a val option" where
  "posOnly p = (\<lambda>v. None)(PosVar := Some (Vec2 (fst p) (snd p)))"

definition callWithPos :: "'a::linordered_field uniforms \<Rightarrow> stmt list \<Rightarrow> 'a \<times> 'a \<Rightarrow> 'a val option" where
  "callWithPos env body p = exec env (posOnly p) body"

definition imageSrcUnsafeAtValue ::
  "'a::linordered_field uniforms \<Rightarrow> Unit \<Rightarrow> int \<Rightarrow> 'a \<times> 'a \<Rightarrow> 'a val option" where
  "imageSrcUnsafeAtValue env unit i p =
     (case unsafeAtBody unit i of None \<Rightarrow> None | Some body \<Rightarrow> callWithPos env body p)"

definition imageSrcAtValue ::
  "'a::linordered_field uniforms \<Rightarrow> Unit \<Rightarrow> int \<Rightarrow> 'a \<times> 'a \<Rightarrow> 'a val option" where
  "imageSrcAtValue env unit i p =
     (case atBody unit i of None \<Rightarrow> None | Some body \<Rightarrow> callWithPos env body p)"

text \<open>
  A region is an origin and a size; a position is in it when each coordinate is at least
  the origin's and less than the origin's plus the size's.
\<close>

definition inRegion :: "'a::linordered_field \<times> 'a \<Rightarrow> 'a \<times> 'a \<Rightarrow> 'a \<times> 'a \<Rightarrow> bool" where
  "inRegion origin extent p \<longleftrightarrow>
     fst origin \<le> fst p \<and> fst p < fst origin + fst extent \<and>
     snd origin \<le> snd p \<and> snd p < snd origin + snd extent"

definition texelValue :: "'a uniforms \<Rightarrow> int \<Rightarrow> 'a \<times> 'a \<Rightarrow> 'a val" where
  "texelValue env i p = (case texels env i p of (r, g, b, a) \<Rightarrow> Vec4 r g b a)"

subsection \<open>The formulas of the specification\<close>

text \<open>
  The specification writes the converted positions with vectors: in pixels
  \<open>pos - origin[0] + origin[i]\<close>, in texels
  \<open>((pos - origin[0]) * texSize[0] / texSize[i]) + origin[i]\<close>. These are its formulas,
  component by component, to compare with what the emitted expressions compute.
\<close>

definition vadd :: "'a::linordered_field \<times> 'a \<Rightarrow> 'a \<times> 'a \<Rightarrow> 'a \<times> 'a" where
  "vadd a b = (fst a + fst b, snd a + snd b)"

definition vsub :: "'a::linordered_field \<times> 'a \<Rightarrow> 'a \<times> 'a \<Rightarrow> 'a \<times> 'a" where
  "vsub a b = (fst a - fst b, snd a - snd b)"

definition vmul :: "'a::linordered_field \<times> 'a \<Rightarrow> 'a \<times> 'a \<Rightarrow> 'a \<times> 'a" where
  "vmul a b = (fst a * fst b, snd a * snd b)"

definition vdiv :: "'a::linordered_field \<times> 'a \<Rightarrow> 'a \<times> 'a \<Rightarrow> 'a \<times> 'a" where
  "vdiv a b = (fst a / fst b, snd a / snd b)"

definition specPosPixels :: "'a::linordered_field uniforms \<Rightarrow> int \<Rightarrow> 'a \<times> 'a \<Rightarrow> 'a \<times> 'a" where
  "specPosPixels env i pos =
     vadd (vsub pos (imageSrcRegionOrigins env 0)) (imageSrcRegionOrigins env i)"

definition specPosTexels :: "'a::linordered_field uniforms \<Rightarrow> int \<Rightarrow> 'a \<times> 'a \<Rightarrow> 'a \<times> 'a" where
  "specPosTexels env i pos =
     vadd (vdiv (vmul (vsub pos (imageSrcRegionOrigins env 0)) (imageSrcTextureSizes env 0))
                (imageSrcTextureSizes env i))
          (imageSrcRegionOrigins env i)"

definition vec2 :: "'a \<times> 'a \<Rightarrow> 'a val" where
  "vec2 p = Vec2 (fst p) (snd p)"

definition nonzero :: "'a::linordered_field \<times> 'a \<Rightarrow> bool" where
  "nonzero a \<longleftrightarrow> fst a \<noteq> 0 \<and> snd a \<noteq> 0"

definition nonnegative :: "'a::linordered_field \<times> 'a \<Rightarrow> bool" where
  "nonnegative a \<longleftrightarrow> 0 \<le> fst a \<and> 0 \<le> snd a"

text \<open>
  The position at which \<open>imageSrc%dUnsafeAt\<close> and \<open>imageSrc%dAt\<close> read texture \<open>i\<close>:
  the queried position itself for slot 0, the specification's conversion for the others.
\<close>

definition sampledPos :: "'a::linordered_field uniforms \<Rightarrow> Unit \<Rightarrow> int \<Rightarrow> 'a \<times> 'a \<Rightarrow> 'a \<times> 'a" where
  "sampledPos env unit i pos =
     (if i \<ge> 1 then
        (case unit of
           Pixels \<Rightarrow> specPosPixels env i pos
         | Texels \<Rightarrow> specPosTexels env i pos
         | UnitValue v \<Rightarrow> pos)
      else pos)"

text \<open>The text one iteration of the loop appends when it does not return.\<close>

definition slotText :: "Unit \<Rightarrow> int \<Rightarrow> string" where
  "slotText unit i =
     (case slotPosExpr unit i of
        None \<Rightarrow> []
      | Some p \<Rightarrow> imageSrcOriginSize i @ imageSrcUnsafeAt i (pretty p) @ imageSrcAt unit i (pretty p))"

subsection \<open>Example uniforms\<close>

text \<open>
  For the texel mode: two source images on textures of 4 by 4 pixels, both regions at
  the origin, image 0 of 1 by 1 pixel and image 1 of 2 by 2 pixels, so that the region
  sizes are a quarter and a half of the texture. Every texel of texture \<open>i\<close> is
  \<open>(i + 1, 0, 0, 1)\<close>.
\<close>

fun exampleSizes :: "int \<Rightarrow> rat \<times> rat" where
  "exampleSizes i = (if i = 0 then (1 / 4, 1 / 4) else (1 / 2, 1 / 2))"

fun exampleOrigins :: "int \<Rightarrow> rat \<times> rat" where
  "exampleOrigins i = (0, 0)"

fun exampleTextureSizes :: "int \<Rightarrow> rat \<times> rat" where
  "exampleTextureSizes i = (4, 4)"

fun exampleTexels :: "int \<Rightarrow> rat \<times> rat \<Rightarrow> rat \<times> rat \<times> rat \<times> rat" where
  "exampleTexels i p = (of_int i + 1, 0, 0, 1)"

definition exampleUniforms :: "rat uniforms" where
  "exampleUniforms =
     \<lparr>imageCount = 2,
      imageSrcRegionOrigins = exampleOrigins,
      imageSrcRegionSizes = exampleSizes,
      imageSrcTextureSizes = exampleTextureSizes,
      texels = exampleTexels\<rparr>"

text \<open>
  For the pixel mode: two images of 8 by 8 pixels on textures of 32 by 32 pixels,
  image 0 at the origin and image 1 at \<open>(16, 0)\<close>.
\<close>

fun pixelOrigins :: "int \<Rightarrow> rat \<times> rat" where
  "pixelOrigins i = (if i = 0 then (0, 0) else (16, 0))"

fun pixelSizes :: "int \<Rightarrow> rat \<times> rat" where
  "pixelSizes i = (8, 8)"

fun pixelTextureSizes :: "int \<Rightarrow> rat \<times> rat" where
  "pixelTextureSizes i = (32, 32)"

definition pixelUniforms :: "rat uniforms" where
  "pixelUniforms =
     \<lparr>imageCount = 2,
      imageSrcRegionOrigins = pixelOrigins,
      imageSrcRegionSizes = pixelSizes,
      imageSrcTextureSizes = pixelTextureSizes,
      texels = exampleTexels\<rparr>"








text \<open>The indices at which the statements of a function body read a uniform array.\<close>

definition bodyElems :: "uniform \<Rightarrow> stmt list \<Rightarrow> int list" where
  "bodyElems u body = concat (map (\<lambda>s. elems u (stmtExpr s)) body)"



subsection \<open>Example collaborators\<close>

text \<open>
  A directive parser that rejects the empty source and answers \<open>Pixels\<close> for every other
  one, and a compiler that returns a program with the two given blocks.
\<close>

fun exampleParse :: "string \<Rightarrow> Unit \<times> string option" where
  "exampleParse src = (if src = [] then (Texels, Some ''no source'') else (Pixels, None))"

definition exampleProgram :: "unit option \<Rightarrow> unit option \<Rightarrow> (unit, unit) Program" where
  "exampleProgram v f = \<lparr>VertexFunc = \<lparr>Block = v\<rparr>, FragmentFunc = \<lparr>Block = f\<rparr>\<rparr>"

fun exampleCompile ::
  "unit option \<Rightarrow> unit option \<Rightarrow> string \<Rightarrow> string \<Rightarrow> string \<Rightarrow> int \<Rightarrow>
   (unit, unit) Program option \<times> string option" where
  "exampleCompile v f buf vertexName fragmentName n = (Some (exampleProgram v f), None)"

section \<open>Lemmas\<close>

subsection \<open>The text is the concrete syntax of the expressions\<close>

text \<open>
  The position text of a slot is \<open>pretty\<close> of its expression, and the two fetch
  templates are their head lines followed by the statements, pretty-printed.
\<close>

lemma fmt_d_0 [simp]: "fmt_d 0 = ''0''"
  by (simp add: fmt_d_def digits.simps)

lemma slotPos_pretty: "slotPosExpr unit i = Some p \<Longrightarrow> slotPos unit i = Inr (pretty p)"
  by (auto simp: slotPosExpr_def slotPos_def posPixels_def posTexels_def split: if_splits Unit.splits)

lemma slotPos_unexpected:
  "slotPosExpr unit i = None \<Longrightarrow> \<exists>v. unit = UnitValue v \<and> 1 \<le> i \<and> slotPos unit i = Inl (Errorf (''graphics: unexpected unit: '' @ fmt_d v))"
  by (auto simp: slotPosExpr_def slotPos_def split: if_splits Unit.splits)

lemma imageSrcUnsafeAt_pretty:
  "imageSrcUnsafeAt i (pretty p) = unsafeAtHead i @ prettyStmt (Ret (unsafeTexel i p)) @ ''}\<newline>''"
  by (simp add: imageSrcUnsafeAt_def unsafeAtHead_def unsafeTexel_def)

lemma imageSrcAt_pretty:
  "sizeSlot unit i = Some k \<Longrightarrow>
   imageSrcAt unit i (pretty p) =
     atHead unit i @ prettyStmt (Define InVar (regionMask k)) @ prettyStmt (Ret (maskedTexel i p)) @ ''}\<newline>''"
  by (auto simp: sizeSlot_def imageSrcAt_def imageSrcAtPixels_def imageSrcAtTexels_def atHead_def
      regionMask_def maskedTexel_def unsafeTexel_def split: Unit.splits)

subsection \<open>The loop\<close>

text \<open>
  As long as no iteration returns, the loop appends \<open>slotText unit i\<close> for
  \<open>i\<close> up to \<open>n - 1\<close>; with an unexpected unit the first iteration with \<open>i \<ge> 1\<close>
  returns the error.
\<close>

lemma loopBody_ok:
  "slotPosExpr unit i = Some p \<Longrightarrow> loopBody unit i s = Inr (s @ slotText unit i)"
  by (simp add: loopBody_def slotText_def slotPos_pretty)

lemma loopBody_unexpected:
  "1 \<le> i \<Longrightarrow> loopBody (UnitValue v) i s = Inl (Errorf (''graphics: unexpected unit: '' @ fmt_d v))"
  by (simp add: loopBody_def slotPos_def)

lemma slotLoop_ok:
  "(\<And>j. i \<le> j \<Longrightarrow> j < n \<Longrightarrow> slotPosExpr unit j \<noteq> None) \<Longrightarrow>
   (slotLoop n unit i s :: string \<times> 'e error option) =
     (s @ concat (map (slotText unit) [i..n - 1]) @ vertexDecls, None)"
proof (induction "nat (n - i)" arbitrary: i s)
  case 0
  then have "\<not> i < n" by simp
  then show ?case by (simp add: slotLoop.simps [of n unit i s])
next
  case (Suc k)
  then have lt: "i < n" by simp
  with Suc.prems obtain p where p: "slotPosExpr unit i = Some p" by fastforce
  have k: "k = nat (n - (i + 1))" using Suc.hyps(2) by simp
  have rest: "(slotLoop n unit (i + 1) (s @ slotText unit i) :: string \<times> 'e error option) =
      ((s @ slotText unit i) @ concat (map (slotText unit) [i + 1..n - 1]) @ vertexDecls, None)"
    by (rule Suc.hyps(1) [OF k]) (simp add: Suc.prems)
  have up: "[i..n - 1] = i # [i + 1..n - 1]" using lt by (simp add: upto_rec1)
  show ?case
    by (simp add: slotLoop.simps [of n unit i s] lt loopBody_ok [OF p] rest up)
qed

lemma slotPosExpr_known: "unit = Pixels \<or> unit = Texels \<Longrightarrow> slotPosExpr unit i \<noteq> None"
  by (auto simp: slotPosExpr_def)

lemma shaderSuffix_ok:
  "unit = Pixels \<or> unit = Texels \<Longrightarrow>
   shaderSuffix n unit = (imageDecls n @ concat (map (slotText unit) [0..n - 1]) @ vertexDecls, None)"
  unfolding shaderSuffix_def by (simp add: slotLoop_ok slotPosExpr_known)

lemma slotLoop_unexpected:
  "1 \<le> i \<Longrightarrow> i < n \<Longrightarrow>
   slotLoop n (UnitValue v) i s = ([], Some (Errorf (''graphics: unexpected unit: '' @ fmt_d v)))"
  by (simp add: slotLoop.simps [of n "UnitValue v" i s] loopBody_unexpected)

lemma shaderSuffix_unexpected:
  "2 \<le> n \<Longrightarrow>
   shaderSuffix n (UnitValue v) = ([], Some (Errorf (''graphics: unexpected unit: '' @ fmt_d v)))"
proof -
  assume n: "2 \<le> n"
  have p: "slotPosExpr (UnitValue v) 0 = Some (Var PosVar)" by (simp add: slotPosExpr_def)
  show ?thesis
    unfolding shaderSuffix_def
    using n by (simp add: slotLoop.simps [of n "UnitValue v" 0] loopBody_ok [OF p] slotLoop_unexpected)
qed

subsection \<open>Values of the emitted expressions\<close>

lemma eval_Elem:
  "0 \<le> i \<Longrightarrow> i < imageCount env \<Longrightarrow> eval env l (Elem u i) = Some (vec2 (uniformValue env u i))"
  by (simp add: vec2_def split: prod.splits)

lemma eval_posPixels:
  assumes "1 \<le> i" "i < imageCount env" "l PosVar = Some (vec2 p)"
  shows "eval env l (posPixels i) = Some (vec2 (specPosPixels env i p))"
  using assms by (simp add: posPixels_def specPosPixels_def eval_Elem vec2_def vadd_def vsub_def del: eval.simps(2))

lemma eval_posTexels:
  assumes "1 \<le> i" "i < imageCount env" "l PosVar = Some (vec2 p)" "nonzero (imageSrcTextureSizes env i)"
  shows "eval env l (posTexels i) = Some (vec2 (specPosTexels env i p))"
  using assms by (simp add: posTexels_def specPosTexels_def eval_Elem vec2_def vadd_def vsub_def vmul_def vdiv_def nonzero_def del: eval.simps(2))

lemma eval_slotPosExpr:
  assumes "slotPosExpr unit i = Some e" "0 \<le> i" "i < imageCount env" "l PosVar = Some (vec2 p)"
    and "unit = Texels \<Longrightarrow> 1 \<le> i \<Longrightarrow> nonzero (imageSrcTextureSizes env i)"
  shows "eval env l e = Some (vec2 (sampledPos env unit i p))"
  using assms
  by (auto simp: slotPosExpr_def sampledPos_def eval_posPixels eval_posTexels split: if_splits Unit.splits)

lemma stepAt_window:
  "0 \<le> (s::'a::linordered_field) \<Longrightarrow> stepAt origin x - stepAt (origin + s) x = (if origin \<le> x \<and> x < origin + s then 1 else 0)"
  by (auto simp: stepAt_def)

lemma eval_regionMask:
  assumes "0 \<le> k" "k < imageCount env" "l PosVar = Some (vec2 p)" "nonnegative (imageSrcRegionSizes env k)"
  shows "eval env l (regionMask k) =
     Some (Vec2 (if fst (imageSrcRegionOrigins env 0) \<le> fst p \<and> fst p < fst (imageSrcRegionOrigins env 0) + fst (imageSrcRegionSizes env k) then 1 else 0)
                (if snd (imageSrcRegionOrigins env 0) \<le> snd p \<and> snd p < snd (imageSrcRegionOrigins env 0) + snd (imageSrcRegionSizes env k) then 1 else 0))"
proof -
  have c: "0 < imageCount env" using assms by simp
  show ?thesis
    using assms c
    by (simp add: regionMask_def eval_Elem vec2_def nonnegative_def stepAt_window del: eval.simps(2))
qed

lemma posOnly_pos [simp]: "posOnly p PosVar = Some (vec2 p)"
  by (simp add: posOnly_def vec2_def)

lemma eval_maskedTexel:
  assumes "eval env l e = Some (vec2 q)" "0 \<le> i" "i < imageCount env"
    and "l InVar = Some (Vec2 mx my)"
  shows "eval env l (maskedTexel i e) =
     Some (case texels env i q of (r, g, b, a) \<Rightarrow> Vec4 (r * mx * my) (g * mx * my) (b * mx * my) (a * mx * my))"
  using assms by (simp add: maskedTexel_def unsafeTexel_def vec2_def split: prod.splits)

lemma eval_unsafeTexel:
  assumes "eval env l e = Some (vec2 q)" "0 \<le> i" "i < imageCount env"
  shows "eval env l (unsafeTexel i e) = Some (texelValue env i q)"
  using assms by (simp add: unsafeTexel_def vec2_def texelValue_def split: prod.splits)

lemma sizeSlot_range:
  "sizeSlot unit i = Some k \<Longrightarrow> 0 \<le> i \<Longrightarrow> i < n \<Longrightarrow> 0 \<le> k \<and> k < n"
  by (auto simp: sizeSlot_def split: Unit.splits)

lemma imageSrcAtValue_mask:
  assumes pe: "slotPosExpr unit i = Some e" and k: "sizeSlot unit i = Some k"
    and i: "0 \<le> i" "i < imageCount env"
    and nn: "nonnegative (imageSrcRegionSizes env k)"
    and nz: "unit = Texels \<Longrightarrow> 1 \<le> i \<Longrightarrow> nonzero (imageSrcTextureSizes env i)"
  shows "imageSrcAtValue env unit i p =
     Some (if inRegion (imageSrcRegionOrigins env 0) (imageSrcRegionSizes env k) p
           then texelValue env i (sampledPos env unit i p)
           else Vec4 0 0 0 0)"
proof -
  let ?mx = "if fst (imageSrcRegionOrigins env 0) \<le> fst p \<and> fst p < fst (imageSrcRegionOrigins env 0) + fst (imageSrcRegionSizes env k) then 1 else 0 :: 'a"
  let ?my = "if snd (imageSrcRegionOrigins env 0) \<le> snd p \<and> snd p < snd (imageSrcRegionOrigins env 0) + snd (imageSrcRegionSizes env k) then 1 else 0 :: 'a"
  let ?l = "(posOnly p)(InVar := Some (Vec2 ?mx ?my))"
  have kr: "0 \<le> k" "k < imageCount env" using sizeSlot_range [OF k i] by simp_all
  have m: "eval env (posOnly p) (regionMask k) = Some (Vec2 ?mx ?my)"
    by (rule eval_regionMask [OF kr _ nn]) simp
  have q: "eval env ?l e = Some (vec2 (sampledPos env unit i p))"
    by (rule eval_slotPosExpr [OF pe i _ nz]) simp_all
  have r: "eval env ?l (maskedTexel i e) =
     Some (case texels env i (sampledPos env unit i p) of (r, g, b, a) \<Rightarrow>
             Vec4 (r * ?mx * ?my) (g * ?mx * ?my) (b * ?mx * ?my) (a * ?mx * ?my))"
    by (rule eval_maskedTexel [OF q i]) simp
  have "imageSrcAtValue env unit i p = eval env ?l (maskedTexel i e)"
    by (simp add: imageSrcAtValue_def atBody_def pe k callWithPos_def m split del: if_split)
  also have "\<dots> = Some (if inRegion (imageSrcRegionOrigins env 0) (imageSrcRegionSizes env k) p
           then texelValue env i (sampledPos env unit i p)
           else Vec4 0 0 0 0)"
    unfolding r by (simp add: inRegion_def texelValue_def split: prod.splits)
  finally show ?thesis .
qed

lemma imageSrcUnsafeAtValue_eq:
  assumes pe: "slotPosExpr unit i = Some e"
    and i: "0 \<le> i" "i < imageCount env"
    and nz: "unit = Texels \<Longrightarrow> 1 \<le> i \<Longrightarrow> nonzero (imageSrcTextureSizes env i)"
  shows "imageSrcUnsafeAtValue env unit i p = Some (texelValue env i (sampledPos env unit i p))"
proof -
  have q: "eval env (posOnly p) e = Some (vec2 (sampledPos env unit i p))"
    by (rule eval_slotPosExpr [OF pe i _ nz]) simp_all
  show ?thesis
    by (simp add: imageSrcUnsafeAtValue_def unsafeAtBody_def pe callWithPos_def
        eval_unsafeTexel [OF q i])
qed

subsection \<open>Runs of the loop\<close>

lemma suffixStep_deterministic:
  "suffixStep n unit c c1 \<Longrightarrow> suffixStep n unit c c2 \<Longrightarrow> c1 = c2"
  by (auto elim!: suffixStep.cases)

lemma suffixStep_Returned: "suffixStep n unit (Returned r) c \<Longrightarrow> False"
  by (auto elim: suffixStep.cases)

lemma suffixRun_deterministic:
  "suffixRun n unit c (Returned r1) \<Longrightarrow> suffixRun n unit c (Returned r2) \<Longrightarrow> r1 = r2"
proof (induction c "Returned r1 :: 'a config" rule: suffixRun.induct)
  case refl
  then show ?case by (auto elim: suffixRun.cases dest: suffixStep_Returned)
next
  case (step c c' )
  from step.prems show ?case
  proof (cases rule: suffixRun.cases)
    case refl
    with step.hyps(1) show ?thesis by (auto dest: suffixStep_Returned)
  next
    case (step d)
    with step.hyps(1) have "d = c'" by (auto dest: suffixStep_deterministic)
    with step step.hyps(3) show ?thesis by simp
  qed
qed

lemma suffixRun_slotLoop:
  "suffixRun n unit (Loop i s) (Returned (slotLoop n unit i s) :: 'e config)"
proof (induction "nat (n - i)" arbitrary: i s)
  case 0
  then have "\<not> i < n" by simp
  then show ?case
    by (simp add: slotLoop.simps [of n unit i s]) (blast intro: suffixRun.intros suffixStep.intros)
next
  case (Suc k)
  then have lt: "i < n" by simp
  have k: "k = nat (n - (i + 1))" using Suc.hyps(2) by simp
  show ?case
  proof (cases "loopBody unit i s :: 'e error + string")
    case (Inl e)
    then show ?thesis using lt
      by (simp add: slotLoop.simps [of n unit i s]) (blast intro: suffixRun.intros suffixStep.intros)
  next
    case (Inr s')
    have "suffixRun n unit (Loop (i + 1) s') (Returned (slotLoop n unit (i + 1) s') :: 'e config)"
      by (rule Suc.hyps(1) [OF k])
    moreover have "suffixStep n unit (Loop i s :: 'e config) (Loop (i + 1) s')"
      using lt Inr by (rule suffixStep.iterate)
    ultimately show ?thesis using lt Inr
      by (simp add: slotLoop.simps [of n unit i s]) (blast intro: suffixRun.step)
  qed
qed

lemma suffixRun_shaderSuffix:
  "suffixRun n unit Entry (Returned (shaderSuffix n unit) :: 'e config)"
  unfolding shaderSuffix_def
  by (rule suffixRun.step [OF suffixStep.enter suffixRun_slotLoop])

subsection \<open>The functions of a slot are part of the suffix\<close>

lemma sublist_slotText:
  assumes "0 \<le> i" "i < n"
  shows "sublist (slotText unit i) (concat (map (slotText unit) [0..n - 1]))"
proof -
  have "i \<in> set [0..n - 1]" using assms by simp
  then obtain xs ys where "[0..n - 1] = xs @ i # ys" by (meson split_list)
  then have "concat (map (slotText unit) [0..n - 1]) =
      concat (map (slotText unit) xs) @ slotText unit i @ concat (map (slotText unit) ys)"
    by simp
  then show ?thesis unfolding sublist_def by blast
qed

lemma sublist_shaderSuffix:
  assumes "unit = Pixels \<or> unit = Texels" "0 \<le> i" "i < n"
  shows "sublist (slotText unit i) (fst (shaderSuffix n unit))"
proof -
  obtain ps ss where "concat (map (slotText unit) [0..n - 1]) = ps @ slotText unit i @ ss"
    using sublist_slotText [OF assms(2,3)] unfolding sublist_def by blast
  then have "fst (shaderSuffix n unit) = (imageDecls n @ ps) @ slotText unit i @ (ss @ vertexDecls)"
    by (simp add: shaderSuffix_ok [OF assms(1)])
  then show ?thesis unfolding sublist_def by blast
qed

lemma sublist_fetch_functions:
  assumes "unit = Pixels \<or> unit = Texels" "0 \<le> i" "i < n" "slotPosExpr unit i = Some e"
  shows "sublist (imageSrcUnsafeAt i (pretty e) @ imageSrcAt unit i (pretty e))
           (fst (shaderSuffix n unit :: string \<times> 'e error option))"
proof -
  let ?out = "fst (shaderSuffix n unit :: string \<times> 'e error option)"
  obtain ps ss where "?out = ps @ slotText unit i @ ss"
    using sublist_shaderSuffix [OF assms(1-3)] unfolding sublist_def by blast
  then have "?out =
      (ps @ imageSrcOriginSize i) @ (imageSrcUnsafeAt i (pretty e) @ imageSrcAt unit i (pretty e)) @ ss"
    by (simp add: slotText_def assms(4))
  then show ?thesis unfolding sublist_def by blast
qed

lemma slotPosExpr_Texels: "1 \<le> i \<Longrightarrow> slotPosExpr Texels i = Some (posTexels i)"
  by (simp add: slotPosExpr_def)

lemma slotPosExpr_Pixels: "1 \<le> i \<Longrightarrow> slotPosExpr Pixels i = Some (posPixels i)"
  by (simp add: slotPosExpr_def)

lemma slotPosExpr_0: "slotPosExpr unit 0 = Some (Var PosVar)"
  by (simp add: slotPosExpr_def)

lemma sampledPos_Texels: "1 \<le> i \<Longrightarrow> sampledPos env Texels i p = specPosTexels env i p"
  by (simp add: sampledPos_def)

lemma sampledPos_Pixels: "1 \<le> i \<Longrightarrow> sampledPos env Pixels i p = specPosPixels env i p"
  by (simp add: sampledPos_def)

lemma sampledPos_0: "sampledPos env unit 0 p = p"
  by (simp add: sampledPos_def)

subsection \<open>One slot\<close>

lemma shaderSuffix_one:
  "(shaderSuffix 1 unit :: string \<times> 'e error option) =
     (imageDecls 1 @ imageSrcOriginSize 0 @ imageSrcUnsafeAt 0 ''pos'' @ imageSrcAt unit 0 ''pos'' @
      vertexDecls, None)"
proof -
  have b: "(loopBody unit 0 s :: 'e error + string) =
      Inr (s @ imageSrcOriginSize 0 @ imageSrcUnsafeAt 0 ''pos'' @ imageSrcAt unit 0 ''pos'')" for s
    by (simp add: loopBody_def slotPos_def)
  show ?thesis
    unfolding shaderSuffix_def
    by (simp add: slotLoop.simps [of 1 unit 0] slotLoop.simps [of 1 unit 1] b)
qed

lemma shaderSuffix_one_Pixels:
  "(shaderSuffix 1 Pixels :: string \<times> 'e error option) =
     (fst (shaderSuffix 1 Pixels :: string \<times> 'e error option), None)"
  by (simp add: shaderSuffix_one)

section \<open>The claims\<close>

subsection \<open>C1: texel mode, slots from 1 on\<close>

text \<open>
  C1. For a slot count \<open>n \<ge> 2\<close>, the unit \<open>Texels\<close> and a slot \<open>1 \<le> i < n\<close>, the
  suffix contains \<open>imageSrc<i>UnsafeAt\<close> and \<open>imageSrc<i>At\<close> with the position
  \<open>((pos - origin[0]) * texSize[0]) / texSize[i] + origin[i]\<close>: the emitted expression
  computes the formula of the specification, where \<open>texSize[i]\<close> is not zero. The line
  \<open>in := ...\<close> of \<open>imageSrc<i>At\<close> reads \<open>__imageSrcRegionSizes[0]\<close> and no other
  size, so the sample is multiplied by 1 inside the region (origin[0], size[0]) and
  by 0 outside it, and slot \<open>i\<close>'s own size is not read at all.
\<close>

theorem texels_position_and_bounds:
  fixes env :: "'a::linordered_field uniforms"
  assumes "2 \<le> n" and "1 \<le> i" and "i < n" and "imageCount env = n"
    and "nonzero (imageSrcTextureSizes env i)"
    and "nonnegative (imageSrcRegionSizes env 0)"
  shows
    "sublist (imageSrcUnsafeAt i (pretty (posTexels i)) @ imageSrcAt Texels i (pretty (posTexels i)))
       (fst (shaderSuffix n Texels :: string \<times> 'e error option)) \<and>
     (slotPos Texels i :: 'e error + string) = Inr (pretty (posTexels i)) \<and>
     pretty (posTexels i) =
       ''((pos - __imageSrcRegionOrigins[0]) * __imageSrcTextureSizes[0]) / __imageSrcTextureSizes[''
       @ fmt_d i @ ''] + __imageSrcRegionOrigins['' @ fmt_d i @ '']'' \<and>
     imageSrcAt Texels i (pretty (posTexels i)) =
       atHead Texels i @ prettyStmt (Define InVar (regionMask 0)) @
       prettyStmt (Ret (maskedTexel i (posTexels i))) @ ''}\<newline>'' \<and>
     atBody Texels i = Some [Define InVar (regionMask 0), Ret (maskedTexel i (posTexels i))] \<and>
     eval env (posOnly p) (posTexels i) = Some (vec2 (specPosTexels env i p)) \<and>
     imageSrcAtValue env Texels i p =
       Some (if inRegion (imageSrcRegionOrigins env 0) (imageSrcRegionSizes env 0) p
             then texelValue env i (specPosTexels env i p)
             else Vec4 0 0 0 0) \<and>
     bodyElems ImageSrcRegionSizes [Define InVar (regionMask 0), Ret (maskedTexel i (posTexels i))] = [0] \<and>
     i \<notin> set (bodyElems ImageSrcRegionSizes [Define InVar (regionMask 0), Ret (maskedTexel i (posTexels i))])"
proof -
  have i0: "0 \<le> i" and ic: "i < imageCount env" using assms by simp_all
  have pe: "slotPosExpr Texels i = Some (posTexels i)" using assms(2) by (rule slotPosExpr_Texels)
  have k: "sizeSlot Texels i = Some 0" by (simp add: sizeSlot_def)
  have a: "sublist (imageSrcUnsafeAt i (pretty (posTexels i)) @ imageSrcAt Texels i (pretty (posTexels i)))
       (fst (shaderSuffix n Texels :: string \<times> 'e error option))"
    by (rule sublist_fetch_functions [OF _ i0 assms(3) pe]) simp
  have a1: "(slotPos Texels i :: 'e error + string) = Inr (pretty (posTexels i))"
    by (rule slotPos_pretty [OF pe])
  have a2: "pretty (posTexels i) =
       ''((pos - __imageSrcRegionOrigins[0]) * __imageSrcTextureSizes[0]) / __imageSrcTextureSizes[''
       @ fmt_d i @ ''] + __imageSrcRegionOrigins['' @ fmt_d i @ '']''"
    by (simp add: posTexels_def)
  have b: "imageSrcAt Texels i (pretty (posTexels i)) =
       atHead Texels i @ prettyStmt (Define InVar (regionMask 0)) @
       prettyStmt (Ret (maskedTexel i (posTexels i))) @ ''}\<newline>''"
    by (rule imageSrcAt_pretty [OF k])
  have c: "atBody Texels i = Some [Define InVar (regionMask 0), Ret (maskedTexel i (posTexels i))]"
    by (simp add: atBody_def pe k)
  have d: "eval env (posOnly p) (posTexels i) = Some (vec2 (specPosTexels env i p))"
    by (rule eval_posTexels [OF assms(2) ic _ assms(5)]) simp
  have e: "imageSrcAtValue env Texels i p =
       Some (if inRegion (imageSrcRegionOrigins env 0) (imageSrcRegionSizes env 0) p
             then texelValue env i (specPosTexels env i p)
             else Vec4 0 0 0 0)"
    using imageSrcAtValue_mask [OF pe k i0 ic assms(6), of p] assms(5)
    by (simp add: sampledPos_Texels [OF assms(2)])
  have f: "bodyElems ImageSrcRegionSizes [Define InVar (regionMask 0), Ret (maskedTexel i (posTexels i))] = [0]"
    by (simp add: bodyElems_def regionMask_def maskedTexel_def unsafeTexel_def posTexels_def)
  have g: "i \<notin> set (bodyElems ImageSrcRegionSizes [Define InVar (regionMask 0), Ret (maskedTexel i (posTexels i))])"
    unfolding f using assms(2) by simp
  show ?thesis using a a1 a2 b c d e f g by blast
qed

theorem texels_position_and_bounds_witness:
  "(2::int) \<le> 2 \<and> (1::int) \<le> 1 \<and> (1::int) < 2 \<and> imageCount exampleUniforms = 2 \<and>
   nonzero (imageSrcTextureSizes exampleUniforms 1) \<and>
   nonnegative (imageSrcRegionSizes exampleUniforms 0) \<and>
   sublist (imageSrcUnsafeAt 1 (pretty (posTexels 1)) @ imageSrcAt Texels 1 (pretty (posTexels 1)))
     (fst (shaderSuffix 2 Texels :: string \<times> unit error option)) \<and>
   eval exampleUniforms (posOnly (3 / 8, 3 / 8)) (posTexels 1) = Some (Vec2 (3 / 8) (3 / 8)) \<and>
   imageSrcAtValue exampleUniforms Texels 1 (3 / 8, 3 / 8) = Some (Vec4 0 0 0 0) \<and>
   imageSrcAtValue exampleUniforms Texels 1 (1 / 8, 1 / 8) = Some (Vec4 2 0 0 1)"
proof -
  have h: "(2::int) \<le> 2" "(1::int) \<le> 1" "(1::int) < 2" "imageCount exampleUniforms = 2"
    "nonzero (imageSrcTextureSizes exampleUniforms 1)"
    "nonnegative (imageSrcRegionSizes exampleUniforms 0)"
    by (simp_all add: exampleUniforms_def nonzero_def nonnegative_def)
  note t = texels_position_and_bounds [OF h, where ?'e = unit]
  have s: "specPosTexels exampleUniforms 1 p = p" for p
    by (simp add: specPosTexels_def exampleUniforms_def vadd_def vsub_def vmul_def vdiv_def)
  have "sublist (imageSrcUnsafeAt 1 (pretty (posTexels 1)) @ imageSrcAt Texels 1 (pretty (posTexels 1)))
     (fst (shaderSuffix 2 Texels :: string \<times> unit error option))"
    using t by blast
  moreover have "eval exampleUniforms (posOnly (3 / 8, 3 / 8)) (posTexels 1) = Some (Vec2 (3 / 8) (3 / 8))"
    using t [of "(3 / 8, 3 / 8)"] by (simp add: s vec2_def)
  moreover have "imageSrcAtValue exampleUniforms Texels 1 (3 / 8, 3 / 8) = Some (Vec4 0 0 0 0)"
    using t [of "(3 / 8, 3 / 8)"] by (simp add: s inRegion_def exampleUniforms_def)
  moreover have "imageSrcAtValue exampleUniforms Texels 1 (1 / 8, 1 / 8) = Some (Vec4 2 0 0 1)"
    using t [of "(1 / 8, 1 / 8)"] by (simp add: s inRegion_def exampleUniforms_def texelValue_def)
  ultimately show ?thesis using h by blast
qed

subsection \<open>C2: pixel mode, slots from 1 on\<close>

text \<open>
  C2. For a slot count \<open>n \<ge> 2\<close>, the unit \<open>Pixels\<close> and a slot \<open>1 \<le> i < n\<close>, the
  suffix contains the two fetch functions of slot \<open>i\<close> with the position
  \<open>pos - __imageSrcRegionOrigins[0] + __imageSrcRegionOrigins[i]\<close>. The expression
  computes \<open>pos - origin[0] + origin[i]\<close>, the formula of the specification; its only
  operators are one subtraction and one addition, and it reads no texture size: a
  translation, with no scaling factor.
\<close>

theorem pixels_position_is_a_translation:
  fixes env :: "'a::linordered_field uniforms"
  assumes "2 \<le> n" and "1 \<le> i" and "i < n" and "imageCount env = n"
  shows
    "sublist (imageSrcUnsafeAt i (pretty (posPixels i)) @ imageSrcAt Pixels i (pretty (posPixels i)))
       (fst (shaderSuffix n Pixels :: string \<times> 'e error option)) \<and>
     (slotPos Pixels i :: 'e error + string) = Inr (pretty (posPixels i)) \<and>
     pretty (posPixels i) =
       ''pos - __imageSrcRegionOrigins[0] + __imageSrcRegionOrigins['' @ fmt_d i @ '']'' \<and>
     eval env (posOnly p) (posPixels i) = Some (vec2 (specPosPixels env i p)) \<and>
     imageSrcUnsafeAtValue env Pixels i p = Some (texelValue env i (specPosPixels env i p)) \<and>
     binops (posPixels i) = [Sub, Add] \<and>
     elems ImageSrcTextureSizes (posPixels i) = []"
proof -
  have i0: "0 \<le> i" and ic: "i < imageCount env" using assms by simp_all
  have pe: "slotPosExpr Pixels i = Some (posPixels i)" using assms(2) by (rule slotPosExpr_Pixels)
  have a: "sublist (imageSrcUnsafeAt i (pretty (posPixels i)) @ imageSrcAt Pixels i (pretty (posPixels i)))
       (fst (shaderSuffix n Pixels :: string \<times> 'e error option))"
    by (rule sublist_fetch_functions [OF _ i0 assms(3) pe]) simp
  have b: "(slotPos Pixels i :: 'e error + string) = Inr (pretty (posPixels i))"
    by (rule slotPos_pretty [OF pe])
  have c: "pretty (posPixels i) =
       ''pos - __imageSrcRegionOrigins[0] + __imageSrcRegionOrigins['' @ fmt_d i @ '']''"
    by (simp add: posPixels_def)
  have d: "eval env (posOnly p) (posPixels i) = Some (vec2 (specPosPixels env i p))"
    by (rule eval_posPixels [OF assms(2) ic]) simp
  have e: "imageSrcUnsafeAtValue env Pixels i p = Some (texelValue env i (specPosPixels env i p))"
    using imageSrcUnsafeAtValue_eq [OF pe i0 ic, of p] by (simp add: sampledPos_Pixels [OF assms(2)])
  have f: "binops (posPixels i) = [Sub, Add]" "elems ImageSrcTextureSizes (posPixels i) = []"
    by (simp_all add: posPixels_def)
  show ?thesis using a b c d e f by blast
qed

theorem pixels_position_is_a_translation_witness:
  "(2::int) \<le> 2 \<and> (1::int) \<le> 1 \<and> (1::int) < 2 \<and> imageCount pixelUniforms = 2 \<and>
   sublist (imageSrcUnsafeAt 1 (pretty (posPixels 1)) @ imageSrcAt Pixels 1 (pretty (posPixels 1)))
     (fst (shaderSuffix 2 Pixels :: string \<times> unit error option)) \<and>
   pretty (posPixels 1) = ''pos - __imageSrcRegionOrigins[0] + __imageSrcRegionOrigins[1]'' \<and>
   eval pixelUniforms (posOnly (3, 5)) (posPixels 1) = Some (Vec2 19 5)"
proof -
  have h: "(2::int) \<le> 2" "(1::int) \<le> 1" "(1::int) < 2" "imageCount pixelUniforms = 2"
    by (simp_all add: pixelUniforms_def)
  note t = pixels_position_is_a_translation [OF h, where ?'e = unit]
  have d: "fmt_d 1 = ''1''" by (simp add: fmt_d_def digits.simps)
  have s: "specPosPixels pixelUniforms 1 (3, 5) = (19, 5)"
    by (simp add: specPosPixels_def pixelUniforms_def vadd_def vsub_def)
  have "sublist (imageSrcUnsafeAt 1 (pretty (posPixels 1)) @ imageSrcAt Pixels 1 (pretty (posPixels 1)))
     (fst (shaderSuffix 2 Pixels :: string \<times> unit error option))"
    using t by blast
  moreover have "pretty (posPixels 1) = ''pos - __imageSrcRegionOrigins[0] + __imageSrcRegionOrigins[1]''"
    using t [of "(0, 0)"] by (simp add: d)
  moreover have "eval pixelUniforms (posOnly (3, 5)) (posPixels 1) = Some (Vec2 19 5)"
    using t [of "(3, 5)"] by (simp add: s vec2_def)
  ultimately show ?thesis using h by blast
qed

subsection \<open>C3: both entry points must exist\<close>

text \<open>
  C3. When the directives parse, the suffix is built and \<open>shader.Compile\<close> returns a
  program without an error, \<open>CompileShader\<close> looks at the two blocks: a missing vertex
  block gives the error that names \<open>__vertex\<close>, a missing fragment block (the vertex
  block being there) the error that names \<open>Fragment\<close>, and in both cases no program is
  returned; the two messages differ. With both blocks the program is returned.
\<close>

theorem missing_entry_points_are_errors:
  fixes ParseCompilerDirectives :: "string \<Rightarrow> Unit \<times> 'e option"
  assumes "ParseCompilerDirectives src = (unit, None)"
    and "(shaderSuffix n unit :: string \<times> 'e error option) = (suffixText, None)"
    and "Compile (src @ suffixText) vert frag n = (Some ir, None)"
  shows "fst (CompileShader ParseCompilerDirectives Compile n src) =
     (if Block (VertexFunc ir) = None then
        Return None (Some (Errorf ''graphics: vertex shader entry point '__vertex' is missing''))
      else if Block (FragmentFunc ir) = None then
        Return None (Some (Errorf ''graphics: fragment shader entry point 'Fragment' is missing''))
      else Return (Some ir) None) \<and>
     ''graphics: vertex shader entry point '__vertex' is missing'' \<noteq>
     ''graphics: fragment shader entry point 'Fragment' is missing''"
  using assms by (simp add: CompileShader_def Let_def vert_def frag_def)

theorem missing_entry_points_are_errors_witness:
  "exampleParse ''x'' = (Pixels, None) \<and>
   (shaderSuffix 1 Pixels :: string \<times> string error option) =
     (fst (shaderSuffix 1 Pixels :: string \<times> string error option), None) \<and>
   exampleCompile (Some ()) None (''x'' @ fst (shaderSuffix 1 Pixels :: string \<times> string error option)) vert frag 1 =
     (Some (exampleProgram (Some ()) None), None) \<and>
   fst (CompileShader exampleParse (exampleCompile (Some ()) None) 1 ''x'') =
     Return None (Some (Errorf ''graphics: fragment shader entry point 'Fragment' is missing'')) \<and>
   fst (CompileShader exampleParse (exampleCompile None (Some ())) 1 ''x'') =
     Return None (Some (Errorf ''graphics: vertex shader entry point '__vertex' is missing''))"
proof -
  let ?sfx = "fst (shaderSuffix 1 Pixels :: string \<times> string error option)"
  have p: "exampleParse ''x'' = (Pixels, None)" by simp
  have s: "(shaderSuffix 1 Pixels :: string \<times> string error option) = (?sfx, None)"
    by (rule shaderSuffix_one_Pixels)
  have c: "exampleCompile v f (''x'' @ ?sfx) vert frag 1 = (Some (exampleProgram v f), None)" for v f
    by simp
  have "fst (CompileShader exampleParse (exampleCompile (Some ()) None) 1 ''x'') =
     Return None (Some (Errorf ''graphics: fragment shader entry point 'Fragment' is missing''))"
    using missing_entry_points_are_errors [of exampleParse "''x''" Pixels 1 ?sfx
        "exampleCompile (Some ()) None" "exampleProgram (Some ()) None"] p s c
    by (simp add: exampleProgram_def)
  moreover have "fst (CompileShader exampleParse (exampleCompile None (Some ())) 1 ''x'') =
     Return None (Some (Errorf ''graphics: vertex shader entry point '__vertex' is missing''))"
    using missing_entry_points_are_errors [of exampleParse "''x''" Pixels 1 ?sfx
        "exampleCompile None (Some ())" "exampleProgram None (Some ())"] p s c
    by (simp add: exampleProgram_def)
  ultimately show ?thesis using p s c by blast
qed

subsection \<open>C4: an error of the directive parser\<close>

text \<open>
  C4. When \<open>shader.ParseCompilerDirectives\<close> returns an error, \<open>CompileShader\<close>
  returns no program and that very error, and the parser's is the only call it has made:
  it has neither built the suffix nor called the compiler.
\<close>

theorem directive_error_is_returned:
  assumes "ParseCompilerDirectives src = (unit, Some err)"
  shows "CompileShader ParseCompilerDirectives Compile n src =
     (Return None (Some (External err)), [CallParseCompilerDirectives src])"
  using assms by (simp add: CompileShader_def)

theorem directive_error_is_returned_witness:
  "exampleParse [] = (Texels, Some ''no source'') \<and>
   CompileShader exampleParse (exampleCompile (Some ()) (Some ())) 4 [] =
     (Return None (Some (External ''no source'')), [CallParseCompilerDirectives []])"
proof -
  have p: "exampleParse [] = (Texels, Some ''no source'')" by simp
  show ?thesis
    using directive_error_is_returned [of exampleParse "[]" Texels "''no source''"
        "exampleCompile (Some ()) (Some ())" 4] p by blast
qed

subsection \<open>C5: a unit that is neither pixels nor texels\<close>

text \<open>
  C5. \<open>shaderSuffix\<close> takes the unit only; the slot count is the package constant
  \<open>ShaderImageCount\<close>, which is large enough for \<open>imageSrc2At\<close>, the function the
  shader of \<open>examples/shader/water.go\<close> calls. For every slot count from 2 on and every
  unit other than \<open>Pixels\<close> and \<open>Texels\<close>, \<open>shaderSuffix\<close> returns the empty string,
  so no part of the text, and the error \<open>graphics: unexpected unit: <number>\<close>; the
  iteration for slot 1, the first one that looks at the unit, is the one that returns
  it, whatever text has been built before.
\<close>

theorem unexpected_unit_is_an_error:
  assumes "2 \<le> n"
  shows "(shaderSuffix n (UnitValue v) :: string \<times> 'e error option) =
           ([], Some (Errorf (''graphics: unexpected unit: '' @ fmt_d v))) \<and>
         (loopBody (UnitValue v) 1 s :: 'e error + string) =
           Inl (Errorf (''graphics: unexpected unit: '' @ fmt_d v))"
  using assms by (simp add: shaderSuffix_unexpected loopBody_unexpected)

theorem unexpected_unit_is_an_error_witness:
  "(2::int) \<le> 4 \<and>
   (shaderSuffix 4 (UnitValue 2) :: string \<times> unit error option) =
     ([], Some (Errorf ''graphics: unexpected unit: 2'')) \<and>
   (2::int) \<le> 3 \<and>
   (shaderSuffix 3 (UnitValue (- 1)) :: string \<times> unit error option) =
     ([], Some (Errorf ''graphics: unexpected unit: -1''))"
proof -
  have h: "(2::int) \<le> 4" and h': "(2::int) \<le> 3" by simp_all
  have d: "fmt_d 2 = ''2''" "fmt_d (- 1) = ''-1''" by (simp_all add: fmt_d_def digits.simps)
  show ?thesis
    using unexpected_unit_is_an_error [OF h, of 2, where ?'e = unit]
      unexpected_unit_is_an_error [OF h', of "- 1", where ?'e = unit] h h'
    by (simp add: d)
qed

subsection \<open>C6: the suffix is determined by the slot count and the unit\<close>

text \<open>
  C6. For a slot count \<open>n \<ge> 1\<close> and the units \<open>Pixels\<close> and \<open>Texels\<close>, any two
  complete runs of \<open>shaderSuffix\<close> on the same slot count and unit return the same
  pair: the one \<open>shaderSuffix n unit\<close> computes, which is no error and the text made of
  the declarations for \<open>n\<close>, the text of the slots \<open>0\<close> to \<open>n - 1\<close> in order, and the
  vertex entry point.
\<close>

theorem suffix_is_a_function_of_count_and_unit:
  assumes "1 \<le> n" and "unit = Pixels \<or> unit = Texels"
    and "suffixRun n unit Entry (Returned r1 :: 'e config)"
    and "suffixRun n unit Entry (Returned r2 :: 'e config)"
  shows "r1 = r2 \<and> r1 = shaderSuffix n unit \<and>
         r1 = (imageDecls n @ concat (map (slotText unit) [0..n - 1]) @ vertexDecls, None)"
proof -
  have run: "suffixRun n unit Entry (Returned (shaderSuffix n unit) :: 'e config)"
    by (rule suffixRun_shaderSuffix)
  have a: "r1 = r2" using assms(3,4) by (rule suffixRun_deterministic)
  have b: "r1 = shaderSuffix n unit" using assms(3) run by (rule suffixRun_deterministic)
  have c: "(shaderSuffix n unit :: string \<times> 'e error option) =
      (imageDecls n @ concat (map (slotText unit) [0..n - 1]) @ vertexDecls, None)"
    by (rule shaderSuffix_ok [OF assms(2)])
  show ?thesis using a b c by simp
qed

theorem suffix_is_a_function_of_count_and_unit_witness:
  "(1::int) \<le> 1 \<and> (Pixels = Pixels \<or> Pixels = Texels) \<and>
   suffixRun 1 Pixels Entry (Returned (shaderSuffix 1 Pixels) :: unit config) \<and>
   (shaderSuffix 1 Pixels :: string \<times> unit error option) =
     (imageDecls 1 @ concat (map (slotText Pixels) [0..1 - 1]) @ vertexDecls, None)"
proof -
  have h: "(1::int) \<le> 1" "Pixels = Pixels \<or> Pixels = Texels" by simp_all
  have r: "suffixRun 1 Pixels Entry (Returned (shaderSuffix 1 Pixels) :: unit config)"
    by (rule suffixRun_shaderSuffix)
  show ?thesis
    using suffix_is_a_function_of_count_and_unit [OF h r r] h r by blast
qed

subsection \<open>C7: what the bounds-checked fetch lets through\<close>




subsection \<open>C8: what is compiled\<close>

text \<open>
  C8. When the directives parse with unit \<open>unit\<close> and \<open>shaderSuffix\<close> returns the text
  \<open>suffixText\<close> without an error, the calls of \<open>CompileShader\<close> are the parser's, the
  synthesis and one call of \<open>shader.Compile\<close>, on the source followed by the suffix,
  with the names \<open>__vertex\<close> and \<open>Fragment\<close> and the slot count. If that call returns a
  program whose two blocks exist and no error, \<open>CompileShader\<close> returns this program.
\<close>

theorem compiles_source_followed_by_suffix:
  fixes ParseCompilerDirectives :: "string \<Rightarrow> Unit \<times> 'e option"
  assumes "ParseCompilerDirectives src = (unit, None)"
    and "(shaderSuffix n unit :: string \<times> 'e error option) = (suffixText, None)"
  shows "snd (CompileShader ParseCompilerDirectives Compile n src) =
       [CallParseCompilerDirectives src, CallShaderSuffix unit,
        CallCompile (src @ suffixText) ''__vertex'' ''Fragment'' n] \<and>
     (\<forall>ir. Compile (src @ suffixText) ''__vertex'' ''Fragment'' n = (Some ir, None) \<and>
           Block (VertexFunc ir) \<noteq> None \<and> Block (FragmentFunc ir) \<noteq> None \<longrightarrow>
           fst (CompileShader ParseCompilerDirectives Compile n src) = Return (Some ir) None)"
proof -
  have a: "snd (CompileShader ParseCompilerDirectives Compile n src) =
       [CallParseCompilerDirectives src, CallShaderSuffix unit,
        CallCompile (src @ suffixText) ''__vertex'' ''Fragment'' n]"
    using assms by (simp add: CompileShader_def Let_def vert_def frag_def split: prod.splits option.splits)
  have b: "fst (CompileShader ParseCompilerDirectives Compile n src) = Return (Some ir) None"
    if "Compile (src @ suffixText) ''__vertex'' ''Fragment'' n = (Some ir, None)"
      and "Block (VertexFunc ir) \<noteq> None" and "Block (FragmentFunc ir) \<noteq> None" for ir
    using assms that by (simp add: CompileShader_def Let_def vert_def frag_def)
  show ?thesis using a b by blast
qed

theorem compiles_source_followed_by_suffix_witness:
  "exampleParse ''x'' = (Pixels, None) \<and>
   (shaderSuffix 1 Pixels :: string \<times> string error option) =
     (fst (shaderSuffix 1 Pixels :: string \<times> string error option), None) \<and>
   CompileShader exampleParse (exampleCompile (Some ()) (Some ())) 1 ''x'' =
     (Return (Some (exampleProgram (Some ()) (Some ()))) None,
      [CallParseCompilerDirectives ''x'', CallShaderSuffix Pixels,
       CallCompile (''x'' @ fst (shaderSuffix 1 Pixels :: string \<times> string error option))
         ''__vertex'' ''Fragment'' 1])"
proof -
  let ?sfx = "fst (shaderSuffix 1 Pixels :: string \<times> string error option)"
  have p: "exampleParse ''x'' = (Pixels, None)" by simp
  have s: "(shaderSuffix 1 Pixels :: string \<times> string error option) = (?sfx, None)"
    by (rule shaderSuffix_one_Pixels)
  have t: "snd (CompileShader exampleParse (exampleCompile (Some ()) (Some ())) 1 ''x'') =
       [CallParseCompilerDirectives ''x'', CallShaderSuffix Pixels,
        CallCompile (''x'' @ ?sfx) ''__vertex'' ''Fragment'' 1] \<and>
     (\<forall>ir. exampleCompile (Some ()) (Some ()) (''x'' @ ?sfx) ''__vertex'' ''Fragment'' 1 = (Some ir, None) \<and>
           Block (VertexFunc ir) \<noteq> None \<and> Block (FragmentFunc ir) \<noteq> None \<longrightarrow>
           fst (CompileShader exampleParse (exampleCompile (Some ()) (Some ())) 1 ''x'') = Return (Some ir) None)"
    using compiles_source_followed_by_suffix [of exampleParse "''x''" Pixels 1 ?sfx
      "exampleCompile (Some ()) (Some ())"] p s by blast
  have "fst (CompileShader exampleParse (exampleCompile (Some ()) (Some ())) 1 ''x'') =
      Return (Some (exampleProgram (Some ()) (Some ()))) None"
    using t by (simp add: exampleProgram_def)
  moreover have "snd (CompileShader exampleParse (exampleCompile (Some ()) (Some ())) 1 ''x'') =
      [CallParseCompilerDirectives ''x'', CallShaderSuffix Pixels,
       CallCompile (''x'' @ ?sfx) ''__vertex'' ''Fragment'' 1]"
    using t by blast
  ultimately show ?thesis using p s by (simp add: prod_eq_iff)
qed

subsection \<open>C9: slot 0\<close>

text \<open>
  C9. For the units \<open>Pixels\<close> and \<open>Texels\<close> the two fetch functions of slot 0 sample
  at \<open>pos\<close> itself: the position text is \<open>pos\<close>, the bodies are
  \<open>__texelAt(__t0, pos)\<close> with and without the mask, and \<open>imageSrc0UnsafeAt\<close> returns
  the texel at the queried position. With one slot the whole suffix is the declarations,
  the functions of slot 0 on \<open>pos\<close> and the vertex entry point: no position is converted.
\<close>

theorem slot_0_uses_raw_position:
  fixes env :: "'a::linordered_field uniforms"
  assumes "unit = Pixels \<or> unit = Texels" and "0 < imageCount env"
  shows
    "(slotPos unit 0 :: 'e error + string) = Inr ''pos'' \<and>
     unsafeAtBody unit 0 = Some [Ret (unsafeTexel 0 (Var PosVar))] \<and>
     atBody unit 0 = Some [Define InVar (regionMask 0), Ret (maskedTexel 0 (Var PosVar))] \<and>
     imageSrcUnsafeAtValue env unit 0 p = Some (texelValue env 0 p) \<and>
     sampledPos env unit 0 p = p \<and>
     (shaderSuffix 1 unit :: string \<times> 'e error option) =
       (imageDecls 1 @ imageSrcOriginSize 0 @ imageSrcUnsafeAt 0 ''pos'' @ imageSrcAt unit 0 ''pos'' @
        vertexDecls, None) \<and>
     imageSrcUnsafeAt 0 ''pos'' =
       unsafeAtHead 0 @ prettyStmt (Ret (unsafeTexel 0 (Var PosVar))) @ ''}\<newline>'' \<and>
     imageSrcAt unit 0 ''pos'' =
       atHead unit 0 @ prettyStmt (Define InVar (regionMask 0)) @
       prettyStmt (Ret (maskedTexel 0 (Var PosVar))) @ ''}\<newline>''"
proof -
  have pe: "slotPosExpr unit 0 = Some (Var PosVar)" by (rule slotPosExpr_0)
  have k: "sizeSlot unit 0 = Some 0" using assms(1) by (auto simp: sizeSlot_def)
  have a: "(slotPos unit 0 :: 'e error + string) = Inr ''pos''" by (simp add: slotPos_def)
  have b: "unsafeAtBody unit 0 = Some [Ret (unsafeTexel 0 (Var PosVar))]"
    by (simp add: unsafeAtBody_def pe)
  have c: "atBody unit 0 = Some [Define InVar (regionMask 0), Ret (maskedTexel 0 (Var PosVar))]"
    by (simp add: atBody_def pe k)
  have d: "imageSrcUnsafeAtValue env unit 0 p = Some (texelValue env 0 p)"
    using imageSrcUnsafeAtValue_eq [OF pe _ assms(2), of p] by (simp add: sampledPos_0)
  have e: "sampledPos env unit 0 p = p" by (rule sampledPos_0)
  have f: "(shaderSuffix 1 unit :: string \<times> 'e error option) =
       (imageDecls 1 @ imageSrcOriginSize 0 @ imageSrcUnsafeAt 0 ''pos'' @ imageSrcAt unit 0 ''pos'' @
        vertexDecls, None)"
    by (rule shaderSuffix_one)
  have g: "imageSrcUnsafeAt 0 ''pos'' =
       unsafeAtHead 0 @ prettyStmt (Ret (unsafeTexel 0 (Var PosVar))) @ ''}\<newline>''"
    using imageSrcUnsafeAt_pretty [of 0 "Var PosVar"] by simp
  have h: "imageSrcAt unit 0 ''pos'' =
       atHead unit 0 @ prettyStmt (Define InVar (regionMask 0)) @
       prettyStmt (Ret (maskedTexel 0 (Var PosVar))) @ ''}\<newline>''"
    using imageSrcAt_pretty [OF k, of "Var PosVar"] by simp
  show ?thesis using a b c d e f g h by blast
qed

theorem slot_0_uses_raw_position_witness:
  "(Texels = Pixels \<or> Texels = Texels) \<and> 0 < imageCount exampleUniforms \<and>
   (slotPos Texels 0 :: unit error + string) = Inr ''pos'' \<and>
   imageSrcUnsafeAtValue exampleUniforms Texels 0 (1 / 8, 1 / 8) = Some (Vec4 1 0 0 1) \<and>
   snd (shaderSuffix 1 Texels :: string \<times> unit error option) = None"
proof -
  have h: "Texels = Pixels \<or> Texels = Texels" "0 < imageCount exampleUniforms"
    by (simp_all add: exampleUniforms_def)
  note t = slot_0_uses_raw_position [OF h, where ?'e = unit]
  have "(slotPos Texels 0 :: unit error + string) = Inr ''pos''" using t by blast
  moreover have "imageSrcUnsafeAtValue exampleUniforms Texels 0 (1 / 8, 1 / 8) = Some (Vec4 1 0 0 1)"
    using t [of "(1 / 8, 1 / 8)"] by (simp add: texelValue_def exampleUniforms_def)
  moreover have "snd (shaderSuffix 1 Texels :: string \<times> unit error option) = None"
    using t [of "(0, 0)"] by simp
  ultimately show ?thesis using h by blast
qed

subsection \<open>C10: one slot and an unexpected unit\<close>

text \<open>
  C10. With one image slot \<open>shaderSuffix\<close> returns no error for any unit: the position
  of slot 0 is \<open>pos\<close> whatever the unit is, the second switch appends nothing for a unit
  that is neither \<open>Pixels\<close> nor \<open>Texels\<close>, and the text returned for such a unit is
  the declarations, the origin and size accessors and \<open>imageSrc0UnsafeAt\<close> of slot 0,
  and the vertex entry point, without \<open>imageSrc0At\<close>.
\<close>

theorem single_slot_accepts_any_unit:
  "snd (shaderSuffix 1 unit :: string \<times> 'e error option) = None \<and>
   (slotPos unit 0 :: 'e error + string) = Inr ''pos'' \<and>
   imageSrcAt (UnitValue v) 0 ''pos'' = [] \<and>
   (shaderSuffix 1 (UnitValue v) :: string \<times> 'e error option) =
     (imageDecls 1 @ imageSrcOriginSize 0 @ imageSrcUnsafeAt 0 ''pos'' @ vertexDecls, None)"
proof -
  have pos: "(slotPos unit 0 :: 'e error + string) = Inr ''pos''"
    by (simp add: slotPos_def)
  have none: "imageSrcAt (UnitValue v) 0 ''pos'' = []"
    by (simp add: imageSrcAt_def)
  have any: "(shaderSuffix 1 unit :: string \<times> 'e error option) =
     (imageDecls 1 @ imageSrcOriginSize 0 @ imageSrcUnsafeAt 0 ''pos'' @ imageSrcAt unit 0 ''pos'' @
      vertexDecls, None)"
    by (rule shaderSuffix_one)
  have other: "(shaderSuffix 1 (UnitValue v) :: string \<times> 'e error option) =
     (imageDecls 1 @ imageSrcOriginSize 0 @ imageSrcUnsafeAt 0 ''pos'' @ vertexDecls, None)"
    by (simp add: shaderSuffix_one none)
  show ?thesis using pos none any other by simp
qed

theorem single_slot_accepts_any_unit_witness:
  "snd (shaderSuffix 1 (UnitValue 2) :: string \<times> unit error option) = None \<and>
   (shaderSuffix 1 (UnitValue 2) :: string \<times> unit error option) =
     (imageDecls 1 @ imageSrcOriginSize 0 @ imageSrcUnsafeAt 0 ''pos'' @ vertexDecls, None)"
  using single_slot_accepts_any_unit [of "UnitValue 2" 2, where ?'e = unit] by blast

end
